theory Spec2Isabelle
  imports Complex_Main
begin

section \<open>Numbers, errors and path records of draw_magnets.py\<close>

text \<open>
  Python floats are modelled as \<^typ>\<open>real\<close>: rounding, infinities and NaN are outside
  the model. Every place where the interpreter raises on a finite number is a branch of the
  model that returns the exception as a value.
\<close>

datatype py_error = ValueError | ZeroDivisionError | IndexError

text \<open>
  An operand of a draw command is a Python \<open>int\<close> (the arc flags written as the literals
  \<open>0\<close> and \<open>1\<close>) or a float (every coordinate and radius).
\<close>

datatype pynum = PyInt int | PyFloat real

type_synonym command = "string \<times> pynum list"

record Path =
  klass :: string
  commands :: "command list"
  zorder :: int

text \<open>\<open>a / b\<close> on Python floats: a zero divisor raises.\<close>

definition py_div :: "real \<Rightarrow> real \<Rightarrow> py_error + real" where
  "py_div a b = (if b = 0 then Inl ZeroDivisionError else Inr (a / b))"

text \<open>
  \<open>b ** e\<close> for a Python float \<open>b\<close> and an integer exponent \<open>e\<close>: zero to a negative
  power raises ZeroDivisionError.
\<close>

definition py_pow :: "real \<Rightarrow> int \<Rightarrow> py_error + real" where
  "py_pow b e =
     (if e < 0 then (if b = 0 then Inl ZeroDivisionError else Inr (1 / b ^ nat (- e)))
      else Inr (b ^ nat e))"

section \<open>evaluate_polynomial\<close>

text \<open>
  The first loop, for one sample \<open>x\<close>:
  \<^verbatim>\<open>for i, coefficient in enumerate(coefficients): y_middle += coefficient*x**i\<close>.
\<close>

definition polynomial_at :: "real list \<Rightarrow> real \<Rightarrow> real" where
  "polynomial_at coefficients x =
     foldl (\<lambda>y_middle (i, coefficient). y_middle + coefficient * x ^ i) 0
       (enumerate 0 coefficients)"

text \<open>
  The second and third loop, from the accumulators \<open>y0\<close> and \<open>m\<close>:
  \<^verbatim>\<open>y0 += coefficient*breakpoint**i; m += coefficient*i*breakpoint**(i - 1)\<close>.
  At \<open>i = 0\<close> the exponent is \<open>-1\<close>.
\<close>

fun linear_tail :: "(nat \<times> real) list \<Rightarrow> real \<Rightarrow> real \<Rightarrow> real \<Rightarrow> py_error + (real \<times> real)" where
  "linear_tail [] breakpoint y0 m = Inr (y0, m)"
| "linear_tail ((i, coefficient) # rest) breakpoint y0 m =
     (case py_pow breakpoint (int i - 1) of
        Inl err \<Rightarrow> Inl err
      | Inr p \<Rightarrow>
          linear_tail rest breakpoint (y0 + coefficient * breakpoint ^ i)
            (m + coefficient * real i * p))"

text \<open>
  The samples \<open>x\<close> are a numpy array, here a list; \<open>where\<close> selects per sample.
  The breakpoints are Python floats, as draw_bending_magnet passes them.
\<close>

definition evaluate_polynomial ::
  "real list \<Rightarrow> real list \<Rightarrow> real \<Rightarrow> real \<Rightarrow> py_error + real list" where
  "evaluate_polynomial x coefficients lower_breakpoint upper_breakpoint =
     (case linear_tail (enumerate 0 coefficients) lower_breakpoint 0 0 of
        Inl err \<Rightarrow> Inl err
      | Inr (y0_lower, m_lower) \<Rightarrow>
          (case linear_tail (enumerate 0 coefficients) upper_breakpoint 0 0 of
             Inl err \<Rightarrow> Inl err
           | Inr (y0_upper, m_upper) \<Rightarrow>
               Inr (map (\<lambda>xi.
                      if xi < lower_breakpoint
                      then m_lower * (xi - lower_breakpoint) + y0_lower
                      else if xi < upper_breakpoint
                      then polynomial_at coefficients xi
                      else m_upper * (xi - upper_breakpoint) + y0_upper) x)))"

section \<open>Element renderers\<close>

text \<open>
  A renderer receives the path list \<open>graphic\<close> and returns it with the appended records
  (\<open>graphic.append\<close>), next to the value the Python function returns.
\<close>

definition CENTRAL_ENERGY :: real where
  "CENTRAL_ENERGY = 13.5"

fun float_of :: "pynum \<Rightarrow> real" where
  "float_of (PyFloat r) = r"
| "float_of (PyInt n) = of_int n"

text \<open>
  \<open>x, y = args[-2:]\<close>: the last two operands of a command (for a two-operand command,
  as in \<open>x, y = line[-1][1]\<close>, these are all its operands).
\<close>

definition last_two :: "pynum list \<Rightarrow> real \<times> real" where
  "last_two args = (float_of (args ! (length args - 2)), float_of (args ! (length args - 1)))"

definition draw_plane ::
  "Path list \<Rightarrow> real \<Rightarrow> real \<Rightarrow> real \<Rightarrow> real \<Rightarrow> real option \<Rightarrow> Path list" where
  "draw_plane graphic x y \<theta> left right_arg =
     (let right = (case right_arg of None \<Rightarrow> left | Some r \<Rightarrow> r);
          line = [(''M'', [PyFloat (x + left * sin \<theta>), PyFloat (y - left * cos \<theta>)]),
                  (''L'', [PyFloat (x - right * sin \<theta>), PyFloat (y + right * cos \<theta>)])]
      in graphic @ [\<lparr>klass = ''plane'', commands = line, zorder = 1\<rparr>])"

definition draw_drift_length ::
  "Path list \<Rightarrow> real \<Rightarrow> real \<Rightarrow> real \<Rightarrow> real \<Rightarrow> Path list \<times> (real \<times> real)" where
  "draw_drift_length graphic x y \<theta> len =
     (let line = [(''M'', [PyFloat x, PyFloat y]),
                  (''L'', [PyFloat (x + len * cos \<theta>), PyFloat (y + len * sin \<theta>)])]
      in (graphic @ [\<lparr>klass = ''central-ray'', commands = line, zorder = 2\<rparr>],
          last_two (snd (last line))))"

definition draw_multipole_magnet ::
  "Path list \<Rightarrow> real \<Rightarrow> real \<Rightarrow> real \<Rightarrow> real \<Rightarrow> real \<Rightarrow> Path list \<times> (real \<times> real)" where
  "draw_multipole_magnet graphic x y \<theta> len radius =
     (let block =
            [(''M'', [PyFloat (x + radius * sin \<theta>), PyFloat (y - radius * cos \<theta>)]),
             (''L'', [PyFloat (x - radius * sin \<theta>), PyFloat (y + radius * cos \<theta>)]),
             (''L'', [PyFloat (x - radius * sin \<theta> + len * cos \<theta>),
                      PyFloat (y + radius * cos \<theta> + len * sin \<theta>)]),
             (''L'', [PyFloat (x + radius * sin \<theta> + len * cos \<theta>),
                      PyFloat (y - radius * cos \<theta> + len * sin \<theta>)]),
             (''Z'', [])];
          line = [(''M'', [PyFloat x, PyFloat y]),
                  (''L'', [PyFloat (x + len * cos \<theta>), PyFloat (y + len * sin \<theta>)])]
      in (graphic @ [\<lparr>klass = ''magnet'', commands = block, zorder = 1\<rparr>]
                  @ [\<lparr>klass = ''central-ray'', commands = line, zorder = 2\<rparr>],
          last_two (snd (last line))))"

subsection \<open>The bending magnet\<close>

text \<open>
  Line 168: the central momentum, a constant of the program. The literals \<open>1.602e-13\<close>
  and \<open>2.998e8\<close> (and \<open>1.602e-19\<close> below) are written as fractions.
\<close>

definition central_momentum :: real where
  "central_momentum = (0.5110 + CENTRAL_ENERGY) * (1602 / 10 ^ 16) / 299800000"

text \<open>Lines 169 and 170: the central bend radius and the bend angle.\<close>

definition bend_kinematics :: "real \<Rightarrow> real \<Rightarrow> py_error + (real \<times> real)" where
  "bend_kinematics len field =
     (case py_div central_momentum (1602 / 10 ^ 22 * field) of
        Inl err \<Rightarrow> Inl err
      | Inr central_bend_radius \<Rightarrow>
          (case py_div len central_bend_radius of
             Inl err \<Rightarrow> Inl err
           | Inr bend_angle \<Rightarrow> Inr (central_bend_radius, bend_angle)))"

text \<open>\<open>numpy.linspace(start, stop, num)\<close> and \<open>numpy.hypot\<close>.\<close>

definition linspace :: "real \<Rightarrow> real \<Rightarrow> nat \<Rightarrow> real list" where
  "linspace start stop num =
     map (\<lambda>i. start + real i * ((stop - start) / real (num - 1))) [0..<num]"

definition hypot :: "real \<Rightarrow> real \<Rightarrow> real" where
  "hypot a b = sqrt (a * a + b * b)"

text \<open>
  Lines 181, 182 (and 190, 191): the sampled pole-face points in drawing coordinates, for
  the heading \<open>\<phi>\<close> of the face.
\<close>

definition pole_face ::
  "real \<Rightarrow> real \<Rightarrow> real \<Rightarrow> real \<Rightarrow> real list \<Rightarrow> real list \<Rightarrow> (real \<times> real) list" where
  "pole_face x_center y_center central_bend_radius \<phi> \<xi> \<zeta> =
     map (\<lambda>(\<xi>i, \<zeta>i).
            (x_center + (central_bend_radius + \<xi>i) * sin \<phi> + \<zeta>i * cos \<phi>,
             y_center - (central_bend_radius + \<xi>i) * cos \<phi> + \<zeta>i * sin \<phi>))
       (zip \<xi> \<zeta>)"

text \<open>
  Lines 183 to 186 (and 192 to 195): the mask \<open>R <= max_extended_radius\<close> applied to
  both coordinate arrays.
\<close>

definition radial_distance :: "real \<Rightarrow> real \<Rightarrow> real \<times> real \<Rightarrow> real" where
  "radial_distance x_center y_center p = hypot (fst p - x_center) (snd p - y_center)"

definition within_radius ::
  "real \<Rightarrow> real \<Rightarrow> real \<Rightarrow> (real \<times> real) list \<Rightarrow> (real \<times> real) list" where
  "within_radius x_center y_center max_extended_radius points =
     filter (\<lambda>p. radial_distance x_center y_center p \<le> max_extended_radius) points"

definition large_arc :: "real \<Rightarrow> pynum" where
  "large_arc bend_angle = PyInt (if bend_angle > pi then 1 else 0)"

definition line_to :: "real \<times> real \<Rightarrow> command" where
  "line_to p = (''L'', [PyFloat (fst p), PyFloat (snd p)])"

text \<open>
  Lines 197 to 217. \<open>x_back[-1]\<close> and \<open>x_front[-1]\<close> raise IndexError on an empty array;
  \<open>x_front[-2::-1]\<close> is the array without its last element, reversed.
\<close>

definition magnet_block ::
  "real \<Rightarrow> real \<Rightarrow> real \<Rightarrow> real \<Rightarrow> real \<Rightarrow> real \<Rightarrow>
   (real \<times> real) list \<Rightarrow> (real \<times> real) list \<Rightarrow> py_error + command list" where
  "magnet_block x_center y_center \<theta> bend_angle min_extended_radius max_extended_radius
       back front =
     (if back = [] \<or> front = [] then Inl IndexError
      else Inr
        ([(''M'', [PyFloat (fst (last back)), PyFloat (snd (last back))]),
          (''A'', [PyFloat max_extended_radius, PyFloat max_extended_radius,
                   PyInt 0, large_arc bend_angle, PyInt 1,
                   PyFloat (fst (last front)), PyFloat (snd (last front))])]
         @ map line_to (rev (butlast front))
         @ [(''L'', [PyFloat (x_center + min_extended_radius * sin (\<theta> + bend_angle)),
                     PyFloat (y_center - min_extended_radius * cos (\<theta> + bend_angle))]),
            (''A'', [PyFloat min_extended_radius, PyFloat min_extended_radius,
                     PyInt 0, large_arc bend_angle, PyInt 0,
                     PyFloat (x_center + min_extended_radius * sin \<theta>),
                     PyFloat (y_center - min_extended_radius * cos \<theta>)])]
         @ map line_to back
         @ [(''Z'', [])]))"

text \<open>Lines 221 to 229: one reference arc.\<close>

definition reference_arc :: "real \<Rightarrow> real \<Rightarrow> real \<Rightarrow> real \<Rightarrow> real \<Rightarrow> command list" where
  "reference_arc x_center y_center \<theta> bend_angle radius =
     [(''M'', [PyFloat (x_center + radius * sin \<theta>), PyFloat (y_center - radius * cos \<theta>)]),
      (''A'', [PyFloat radius, PyFloat radius,
               PyInt 0, large_arc bend_angle, PyInt 1,
               PyFloat (x_center + radius * sin (\<theta> + bend_angle)),
               PyFloat (y_center - radius * cos (\<theta> + bend_angle))])]"

text \<open>
  Lines 177 to 195: the samples \<open>\<xi>\<close>, the two shape evaluations and the clipped faces
  (back, front).
\<close>

definition pole_faces ::
  "real \<Rightarrow> real \<Rightarrow> real \<Rightarrow> real \<Rightarrow> real \<Rightarrow> real \<Rightarrow> real \<Rightarrow> real \<Rightarrow> real \<Rightarrow>
   real list \<Rightarrow> real list \<Rightarrow> py_error + ((real \<times> real) list \<times> (real \<times> real) list)" where
  "pole_faces x_center y_center \<theta> central_bend_radius bend_angle min_bend_radius
       max_bend_radius min_extended_radius max_extended_radius
       in_shape_parameters out_shape_parameters =
     (let \<xi> = linspace (min_extended_radius - central_bend_radius)
                 (max_extended_radius - central_bend_radius) 21
      in case evaluate_polynomial \<xi> (0 # in_shape_parameters)
                (min_bend_radius - central_bend_radius)
                (max_bend_radius - central_bend_radius) of
           Inl err \<Rightarrow> Inl err
         | Inr \<zeta>_back \<Rightarrow>
             (case evaluate_polynomial \<xi> (0 # out_shape_parameters)
                     (min_bend_radius - central_bend_radius)
                     (max_bend_radius - central_bend_radius) of
                Inl err \<Rightarrow> Inl err
              | Inr \<zeta> \<Rightarrow>
                  Inr (within_radius x_center y_center max_extended_radius
                         (pole_face x_center y_center central_bend_radius \<theta> \<xi> \<zeta>_back),
                       within_radius x_center y_center max_extended_radius
                         (pole_face x_center y_center central_bend_radius (\<theta> + bend_angle) \<xi>
                            (map uminus \<zeta>)))))"

text \<open>
  The whole renderer. Every raise comes before the first \<open>graphic.append\<close>, so a failing
  call leaves \<open>graphic\<close> as it was.
\<close>

definition draw_bending_magnet ::
  "Path list \<Rightarrow> real \<Rightarrow> real \<Rightarrow> real \<Rightarrow> real \<Rightarrow> real \<Rightarrow> real \<Rightarrow> real \<Rightarrow> real \<Rightarrow>
   real list \<Rightarrow> real list \<Rightarrow> Path list \<times> (py_error + real \<times> real \<times> real)" where
  "draw_bending_magnet graphic x y \<theta> len field min_bend_radius max_bend_radius gap_height
       in_shape_parameters out_shape_parameters =
     (case bend_kinematics len field of
        Inl err \<Rightarrow> (graphic, Inl err)
      | Inr (central_bend_radius, bend_angle) \<Rightarrow>
          (let x_center = x - central_bend_radius * sin \<theta>;
               y_center = y + central_bend_radius * cos \<theta>;
               min_extended_radius = min_bend_radius - 1.5 * gap_height;
               max_extended_radius = max_bend_radius + 1.5 * gap_height
           in case pole_faces x_center y_center \<theta> central_bend_radius bend_angle
                     min_bend_radius max_bend_radius min_extended_radius max_extended_radius
                     in_shape_parameters out_shape_parameters of
                Inl err \<Rightarrow> (graphic, Inl err)
              | Inr (back, front) \<Rightarrow>
                  (case magnet_block x_center y_center \<theta> bend_angle min_extended_radius
                          max_extended_radius back front of
                     Inl err \<Rightarrow> (graphic, Inl err)
                   | Inr block \<Rightarrow>
                       (let arcs =
                              map (\<lambda>(radius, k).
                                     \<lparr>klass = k,
                                      commands =
                                        reference_arc x_center y_center \<theta> bend_angle radius,
                                      zorder = 2\<rparr>)
                                [(max_bend_radius, ''guide''), (min_bend_radius, ''guide''),
                                 (central_bend_radius, ''central-ray'')];
                            arc = commands (last arcs)
                        in (graphic @ [\<lparr>klass = ''magnet'', commands = block, zorder = 1\<rparr>]
                                    @ arcs,
                            Inr (fst (last_two (snd (last arc))),
                                 snd (last_two (snd (last arc))),
                                 \<theta> + bend_angle))))))"

section \<open>parse_parameters\<close>

text \<open>
  The model reads ASCII text. The character classes of the pattern
  \<^verbatim>\<open>^\s*([a-z0-9_]+)\s*:=\s*([-+0-9.e]+);$\<close> under \<open>re.IGNORECASE\<close>:
\<close>

definition is_space :: "char \<Rightarrow> bool" where
  "is_space c = (c \<in> set [CHR 0x09, CHR 0x0A, CHR 0x0B, CHR 0x0C, CHR 0x0D,
                            CHR 0x1C, CHR 0x1D, CHR 0x1E, CHR 0x1F, CHR '' ''])"

definition is_key_char :: "char \<Rightarrow> bool" where
  "is_key_char c =
     (c \<in> set ''abcdefghijklmnopqrstuvwxyzABCDEFGHIJKLMNOPQRSTUVWXYZ0123456789_'')"

definition is_value_char :: "char \<Rightarrow> bool" where
  "is_value_char c = (c \<in> set ''-+0123456789.eE'')"

definition is_digit :: "char \<Rightarrow> bool" where
  "is_digit c = (c \<in> set ''0123456789'')"

text \<open>
  \<open>re.match\<close> of the pattern on one line, giving the two groups. The classes that follow
  one another in the pattern are disjoint, so each greedy repetition takes the longest run
  and no backtracking changes the outcome.
\<close>

definition match_line :: "string \<Rightarrow> (string \<times> string) option" where
  "match_line line =
     (let after_indent = dropWhile is_space line;
          key = takeWhile is_key_char after_indent;
          after_key = dropWhile is_space (dropWhile is_key_char after_indent)
      in if key = [] then None
         else (case after_key of
                 c1 # c2 # after_assign \<Rightarrow>
                   if c1 = CHR '':'' \<and> c2 = CHR ''=''
                   then (let after_gap = dropWhile is_space after_assign;
                             literal = takeWhile is_value_char after_gap
                         in if literal \<noteq> [] \<and> dropWhile is_value_char after_gap = '';''
                            then Some (key, literal) else None)
                   else None
               | _ \<Rightarrow> None))"

text \<open>
  \<open>float(value)\<close> on a text of the characters the pattern admits: an optional sign,
  digits with an optional point (at least one digit), and an optional exponent. Anything
  else raises ValueError.
\<close>

definition digits_value :: "string \<Rightarrow> nat" where
  "digits_value ds = foldl (\<lambda>n c. 10 * n + (of_char c - 48)) 0 ds"

definition strip_sign :: "string \<Rightarrow> bool \<times> string" where
  "strip_sign s =
     (case s of
        [] \<Rightarrow> (False, [])
      | c # rest \<Rightarrow>
          if c = CHR ''-'' then (True, rest)
          else if c = CHR ''+'' then (False, rest) else (False, s))"

definition py_float :: "string \<Rightarrow> py_error + real" where
  "py_float s =
     (let unsigned = snd (strip_sign s);
          int_digits = takeWhile is_digit unsigned;
          after_int = dropWhile is_digit unsigned;
          has_point = (after_int \<noteq> [] \<and> hd after_int = CHR ''.'');
          frac_digits = (if has_point then takeWhile is_digit (tl after_int) else []);
          after_frac = (if has_point then dropWhile is_digit (tl after_int) else after_int);
          mantissa = real (digits_value (int_digits @ frac_digits)) / 10 ^ length frac_digits;
          signed = (if fst (strip_sign s) then - mantissa else mantissa)
      in if int_digits = [] \<and> frac_digits = [] then Inl ValueError
         else (case after_frac of
                 [] \<Rightarrow> Inr signed
               | c # exponent \<Rightarrow>
                   if c = CHR ''e'' \<or> c = CHR ''E''
                   then (let exp_digits = snd (strip_sign exponent)
                         in if exp_digits \<noteq> [] \<and> list_all is_digit exp_digits
                            then Inr (if fst (strip_sign exponent)
                                      then signed / 10 ^ digits_value exp_digits
                                      else signed * 10 ^ digits_value exp_digits)
                            else Inl ValueError)
                   else Inl ValueError))"

text \<open>\<open>re.split(r"\r?\n", output)\<close>, with the line read so far as accumulator.\<close>

fun split_lines :: "string \<Rightarrow> string \<Rightarrow> string list" where
  "split_lines current [] = [current]"
| "split_lines current (c # cs) =
     (if c = CHR 0x0A
      then (if current \<noteq> [] \<and> last current = CHR 0x0D then butlast current else current)
             # split_lines [] cs
      else split_lines (current @ [c]) cs)"

fun parse_lines :: "(string \<rightharpoonup> real) \<Rightarrow> string list \<Rightarrow> py_error + (string \<rightharpoonup> real)" where
  "parse_lines parameters [] = Inr parameters"
| "parse_lines parameters (line # rest) =
     (case match_line line of
        None \<Rightarrow> parse_lines parameters rest
      | Some (key, literal) \<Rightarrow>
          (case py_float literal of
             Inl err \<Rightarrow> Inl err
           | Inr v \<Rightarrow> parse_lines (parameters(key \<mapsto> v)) rest))"

definition parse_parameters :: "string \<Rightarrow> py_error + (string \<rightharpoonup> real)" where
  "parse_parameters output = parse_lines Map.empty (split_lines [] output)"

section \<open>write_SVG and format_number\<close>

text \<open>The decimal digits of a natural number, most significant first.\<close>

function decimal :: "nat \<Rightarrow> string" where
  "decimal n =
     (if n < 10 then [''0123456789'' ! n]
      else decimal (n div 10) @ [''0123456789'' ! (n mod 10)])"
  by pat_completeness auto
termination
  by (relation "measure id") auto

declare decimal.simps [simp del]

text \<open>\<open>f"{x:d}"\<close> for a Python int.\<close>

definition format_d :: "int \<Rightarrow> string" where
  "format_d n = (if n < 0 then CHR ''-'' # decimal (nat (- n)) else decimal (nat n))"

text \<open>
  \<open>f"{x:.6f}"\<close>: the decimal expansion to six places, rounded half to even on the exact
  value.
\<close>

definition round_half_even :: "real \<Rightarrow> int" where
  "round_half_even x =
     (if x - of_int \<lfloor>x\<rfloor> < 1 / 2 then \<lfloor>x\<rfloor>
      else if 1 / 2 < x - of_int \<lfloor>x\<rfloor> then \<lfloor>x\<rfloor> + 1
      else if even \<lfloor>x\<rfloor> then \<lfloor>x\<rfloor> else \<lfloor>x\<rfloor> + 1)"

definition format_6f :: "real \<Rightarrow> string" where
  "format_6f x =
     (let scaled = nat (round_half_even (\<bar>x\<bar> * 10 ^ 6));
          fraction = decimal (scaled mod 10 ^ 6)
      in (if x < 0 then [CHR ''-''] else []) @ decimal (scaled div 10 ^ 6) @ [CHR ''.'']
         @ replicate (6 - length fraction) (CHR ''0'') @ fraction)"

text \<open>\<open>int(x)\<close> on a finite float truncates towards zero.\<close>

definition py_int :: "real \<Rightarrow> int" where
  "py_int x = (if x < 0 then \<lceil>x\<rceil> else \<lfloor>x\<rfloor>)"

text \<open>
  format_number. For a Python int, \<open>x == int(x)\<close> holds and \<open>d\<close> formats it. For a float
  with \<open>x == int(x)\<close>, the format code \<open>d\<close> raises ValueError (unknown format code for
  a float).
\<close>

fun format_number :: "pynum \<Rightarrow> py_error + string" where
  "format_number (PyInt n) = Inr (format_d n)"
| "format_number (PyFloat x) =
     (if x = of_int (py_int x) then Inl ValueError else Inr (format_6f x))"

text \<open>A comprehension or generator over a call that may raise: the first error wins.\<close>

fun try_map :: "('a \<Rightarrow> py_error + 'b) \<Rightarrow> 'a list \<Rightarrow> py_error + 'b list" where
  "try_map f [] = Inr []"
| "try_map f (a # rest) =
     (case f a of
        Inl err \<Rightarrow> Inl err
      | Inr b \<Rightarrow> (case try_map f rest of Inl err \<Rightarrow> Inl err | Inr bs \<Rightarrow> Inr (b # bs)))"

text \<open>\<open>sep.join(parts)\<close>.\<close>

fun join :: "string \<Rightarrow> string list \<Rightarrow> string" where
  "join sep [] = []"
| "join sep [s] = s"
| "join sep (s # t # rest) = s @ sep @ join sep (t # rest)"

definition command_text :: "command \<Rightarrow> py_error + string" where
  "command_text c =
     (case try_map format_number (snd c) of
        Inl err \<Rightarrow> Inl err
      | Inr operands \<Rightarrow> Inr (fst c @ join '','' operands))"

definition path_text :: "Path \<Rightarrow> py_error + string" where
  "path_text path =
     (case try_map command_text (commands path) of
        Inl err \<Rightarrow> Inl err
      | Inr parts \<Rightarrow>
          Inr (''  <path class=\"'' @ klass path @ ''\" d=\"'' @ join '' '' parts
               @ ''\" />\<newline>''))"

definition svg_header :: string where
  "svg_header =
     ''<?xml version=\"1.0\" encoding=\"UTF-8\"?>\<newline>'' @
     ''<svg xmlns=\"http://www.w3.org/2000/svg\" version=\"1.1\" viewBox=\".00 .00 1.00 1.00\" width=\"1m\" height=\"1m\">\<newline>'' @
     ''  <style>\<newline>'' @
     ''    .magnet { fill: #8b959e; stroke: none; }\<newline>'' @
     ''    .plane { fill: none; stroke: #8b959e; stroke-width: .01; stroke-linecap: butt; }\<newline>'' @
     ''    .central-ray { fill: none; stroke: #750014; stroke-width: .01; stroke-linecap: round; }\<newline>'' @
     ''    .guide { fill: none; stroke: #ffffff; stroke-width: .005; stroke-linecap: butt; stroke-dasharray: .01 }\<newline>'' @
     ''  </style>\<newline>''"

text \<open>
  write_SVG, as the text it builds. \<open>sorted(paths, key=...)\<close> is a stable sort, as
  \<^const>\<open>sort_key\<close> is. Writing the text to the file and printing the confirmation are
  not modelled.
\<close>

definition write_SVG :: "Path list \<Rightarrow> py_error + string" where
  "write_SVG paths =
     (case try_map path_text (sort_key zorder paths) of
        Inl err \<Rightarrow> Inl err
      | Inr elements \<Rightarrow> Inr (svg_header @ concat elements @ ''</svg>\<newline>''))"

section \<open>Notions used by the claims\<close>

text \<open>
  The bending-magnet kinematics in the specification's words, with the constants the code
  uses: \<open>momentum = (rest_energy + kinetic_energy) * energy_unit_conversion / speed_of_light\<close>,
  \<open>central bend radius = momentum / (elementary_charge * field_strength)\<close> and
  \<open>bend angle = length / central_bend_radius\<close>.
\<close>

definition rest_energy :: real where
  "rest_energy = 0.5110"

definition kinetic_energy :: real where
  "kinetic_energy = 13.5"

definition energy_unit_conversion :: real where
  "energy_unit_conversion = 1602 / 10 ^ 16"

definition speed_of_light :: real where
  "speed_of_light = 299800000"

definition elementary_charge :: real where
  "elementary_charge = 1602 / 10 ^ 22"

definition spec_momentum :: real where
  "spec_momentum = (rest_energy + kinetic_energy) * energy_unit_conversion / speed_of_light"

definition spec_central_bend_radius :: "real \<Rightarrow> real" where
  "spec_central_bend_radius field_strength =
     spec_momentum / (elementary_charge * field_strength)"

definition spec_bend_angle :: "real \<Rightarrow> real \<Rightarrow> real" where
  "spec_bend_angle len field_strength = len / spec_central_bend_radius field_strength"

text \<open>The arc commands of a list of path records, in order.\<close>

definition arc_commands :: "Path list \<Rightarrow> command list" where
  "arc_commands paths = filter (\<lambda>c. fst c = ''A'') (concat (map commands paths))"

text \<open>
  The shape classes drawn first (magnet bodies and plane markers) and those drawn over them
  (central rays and guides), and the stacking order each class must carry.
\<close>

definition body_class :: "Path \<Rightarrow> bool" where
  "body_class p = (klass p = ''magnet'' \<or> klass p = ''plane'')"

definition overlay_class :: "Path \<Rightarrow> bool" where
  "overlay_class p = (klass p = ''central-ray'' \<or> klass p = ''guide'')"

definition stacking_ok :: "Path \<Rightarrow> bool" where
  "stacking_ok p = (body_class p \<and> zorder p = 1 \<or> overlay_class p \<and> zorder p = 2)"

section \<open>Properties of evaluate_polynomial\<close>

lemma linear_tail_nonzero:
  "breakpoint \<noteq> 0 \<Longrightarrow>
   \<exists>m'. linear_tail ics breakpoint y0 m =
     Inr (foldl (\<lambda>y (i, c). y + c * breakpoint ^ i) y0 ics, m')"
proof (induction ics arbitrary: y0 m)
  case Nil
  then show ?case by simp
next
  case (Cons ic ics)
  obtain i c where ic: "ic = (i, c)" by (cases ic)
  from Cons.prems have "\<exists>p. py_pow breakpoint (int i - 1) = Inr p"
    by (simp add: py_pow_def)
  then obtain p where p: "py_pow breakpoint (int i - 1) = Inr p" ..
  from Cons.IH [OF Cons.prems] show ?case
    by (simp add: ic p)
qed

lemma linear_tail_zero:
  "linear_tail (enumerate 0 (c # cs)) 0 y0 m = Inl ZeroDivisionError"
  by (simp add: py_pow_def)

text \<open>
  Where both breakpoints are non-zero the evaluator returns, and a sample equal to the upper
  breakpoint gets the plain polynomial value: the upper tail
  \<open>m_upper * (x - upper_breakpoint) + y0_upper\<close> is \<open>y0_upper\<close> there.
\<close>

lemma evaluate_polynomial_upper_seam:
  assumes "lower_breakpoint \<noteq> 0" and "upper_breakpoint \<noteq> 0"
    and "lower_breakpoint \<le> upper_breakpoint"
  shows "evaluate_polynomial [upper_breakpoint] coefficients lower_breakpoint upper_breakpoint =
           Inr [polynomial_at coefficients upper_breakpoint]"
proof -
  from linear_tail_nonzero [OF assms(1)] obtain m_lower where lower:
    "linear_tail (enumerate 0 coefficients) lower_breakpoint 0 0 =
       Inr (polynomial_at coefficients lower_breakpoint, m_lower)"
    unfolding polynomial_at_def by blast
  from linear_tail_nonzero [OF assms(2)] obtain m_upper where upper:
    "linear_tail (enumerate 0 coefficients) upper_breakpoint 0 0 =
       Inr (polynomial_at coefficients upper_breakpoint, m_upper)"
    unfolding polynomial_at_def by blast
  from assms(3) show ?thesis
    by (simp add: evaluate_polynomial_def lower upper)
qed

text \<open>
  C1, as amended. With coefficients \<open>[0, 2, 0]\<close> and breakpoints \<open>-1\<close> and \<open>1\<close> the
  samples \<open>-1\<close>, \<open>0\<close>, \<open>1\<close> give \<open>-2\<close>, \<open>0\<close>, \<open>2\<close>, and the sample \<open>-2\<close>,
  below the lower breakpoint, gives the linear extrapolation \<open>2 * (-2 + 1) - 2 = -4\<close>.
\<close>

theorem evaluate_polynomial_example:
  "evaluate_polynomial [-1, 0, 1] [0, 2, 0] (-1) 1 = Inr [-2, 0, 2] \<and>
   evaluate_polynomial [-2] [0, 2, 0] (-1) 1 = Inr [-4]"
  by (simp add: evaluate_polynomial_def polynomial_at_def py_pow_def enumerate_eq_zip)

text \<open>
  C1 as the specification states it fails: at the sample \<open>-2\<close> the result is not \<open>-2\<close>.
\<close>

theorem evaluate_polynomial_example_counterexample:
  "\<not> (evaluate_polynomial [-1, 0, 1] [0, 2, 0] (-1) 1 = Inr [-2, 0, 2] \<and>
      evaluate_polynomial [-2] [0, 2, 0] (-1) 1 = Inr [-2])"
  by (simp add: evaluate_polynomial_def polynomial_at_def py_pow_def enumerate_eq_zip)

text \<open>
  C6 fails on the code where a breakpoint is zero. With at least one coefficient and the
  upper breakpoint \<open>0\<close>, every call raises ZeroDivisionError, for every sample array: the
  slope loop computes \<open>breakpoint ** (i - 1)\<close> at \<open>i = 0\<close>. No value is returned at the
  upper seam.
\<close>

theorem evaluate_polynomial_zero_breakpoint_raises:
  "evaluate_polynomial x (c # cs) lower_breakpoint 0 = Inl ZeroDivisionError"
proof (cases "lower_breakpoint = 0")
  case True
  then show ?thesis
    by (simp add: evaluate_polynomial_def py_pow_def)
next
  case False
  from linear_tail_nonzero [OF False] obtain y0 m where lower:
    "linear_tail (enumerate 0 (c # cs)) lower_breakpoint 0 0 = Inr (y0, m)"
    by blast
  have upper: "linear_tail (enumerate 0 (c # cs)) 0 0 0 = Inl ZeroDivisionError"
    by (rule linear_tail_zero)
  show ?thesis
    by (simp only: evaluate_polynomial_def lower upper sum.case prod.case)
qed

section \<open>Properties of the parameter parser\<close>

lemmas char_class_defs = is_space_def is_key_char_def is_value_char_def is_digit_def

text \<open>The parser on the specification's own example.\<close>

lemma parse_parameters_example:
  "parse_parameters ''foo := 1.5;\<newline># comment\<newline>bar:=-2.0e3;'' =
     Inr [''foo'' \<mapsto> 3 / 2, ''bar'' \<mapsto> - 2000]"
  by (simp add: parse_parameters_def match_line_def py_float_def strip_sign_def
      char_class_defs digits_value_def)

text \<open>
  C9. The lines \<open>x := 1.2.3;\<close> and \<open>x := e;\<close> match the pattern, their value texts are
  no numeric literals, and parsing a text made of such a line fails with ValueError: the
  line is neither ignored nor turned into a map entry.
\<close>

theorem malformed_literal_raises:
  "match_line ''x := 1.2.3;'' = Some (''x'', ''1.2.3'') \<and>
   py_float ''1.2.3'' = Inl ValueError \<and>
   parse_parameters ''x := 1.2.3;'' = Inl ValueError \<and>
   match_line ''x := e;'' = Some (''x'', ''e'') \<and>
   py_float ''e'' = Inl ValueError \<and>
   parse_parameters ''x := e;'' = Inl ValueError"
  by (simp add: parse_parameters_def match_line_def py_float_def strip_sign_def
      char_class_defs)

section \<open>Properties of the serializer\<close>

lemma decimal_digit: "n < 10 \<Longrightarrow> decimal n = [''0123456789'' ! n]"
  by (simp add: decimal.simps)

lemma decimal_step:
  "10 \<le> n \<Longrightarrow> decimal n = decimal (n div 10) @ [''0123456789'' ! (n mod 10)]"
  by (subst decimal.simps) simp

text \<open>
  format_number on a Python int and on floats that are no integers. \<open>1/128\<close> and \<open>3/128\<close>
  are doubles whose seventh decimal is an exact tie: \<open>7812.5\<close> rounds to the even \<open>7812\<close>
  and \<open>23437.5\<close> to the even \<open>23438\<close>.
\<close>

lemma format_number_int_examples:
  "format_number (PyInt 1) = Inr ''1''"
  "format_number (PyInt (- 120)) = Inr ''-120''"
  by (simp_all add: format_d_def decimal_digit decimal_step)

lemma format_number_tie_down: "format_number (PyFloat (1 / 128)) = Inr ''0.007812''"
proof -
  have scaled: "nat (round_half_even (\<bar>1 / 128\<bar> * 10 ^ 6)) = 7812"
    by (simp add: round_half_even_def)
  have digits: "decimal 7812 = ''7812''" "decimal 0 = ''0''"
    by (simp_all add: decimal_digit decimal_step)
  have pad: "replicate 2 (CHR ''0'') = ''00''"
    by (simp add: numeral_2_eq_2)
  have "format_6f (1 / 128) = ''0.007812''"
    unfolding format_6f_def Let_def scaled by (simp add: digits pad)
  then show ?thesis by (simp add: py_int_def)
qed

lemma format_number_tie_up: "format_number (PyFloat (3 / 128)) = Inr ''0.023438''"
proof -
  have scaled: "nat (round_half_even (\<bar>3 / 128\<bar> * 10 ^ 6)) = 23438"
    by (simp add: round_half_even_def)
  have digits: "decimal 23438 = ''23438''" "decimal 0 = ''0''"
    by (simp_all add: decimal_digit decimal_step)
  have "format_6f (3 / 128) = ''0.023438''"
    unfolding format_6f_def Let_def scaled by (simp add: digits)
  then show ?thesis by (simp add: py_int_def)
qed

lemma format_number_negative: "format_number (PyFloat (- 2.5)) = Inr ''-2.500000''"
proof -
  have scaled: "nat (round_half_even (\<bar>- 2.5\<bar> * 10 ^ 6)) = 2500000"
    by (simp add: round_half_even_def)
  have digits: "decimal 500000 = ''500000''" "decimal 2 = ''2''"
    by (simp_all add: decimal_digit decimal_step)
  have "format_6f (- 2.5) = ''-2.500000''"
    unfolding format_6f_def Let_def scaled by (simp add: digits)
  then show ?thesis by (simp add: py_int_def)
qed

text \<open>
  C2 fails on the code for a float operand that is an exact integer: format_number raises
  ValueError on \<open>0.0\<close> and on \<open>3.0\<close>, and so does write_SVG on the path that the drift
  renderer appends from the position \<open>(0.0, 0.0)\<close>.
\<close>

theorem format_number_integral_float_raises:
  "format_number (PyFloat 0) = Inl ValueError \<and>
   format_number (PyFloat 3) = Inl ValueError \<and>
   write_SVG (fst (draw_drift_length [] 0 0 0 2)) = Inl ValueError"
  by (simp add: write_SVG_def draw_drift_length_def path_text_def command_text_def py_int_def)

section \<open>Properties of the straight renderers and of the stacking order\<close>

text \<open>The drift and the multipole magnet on the specification's own examples.\<close>

lemma draw_drift_length_example:
  "draw_drift_length [] 0 0 0 2 =
     ([\<lparr>klass = ''central-ray'',
        commands = [(''M'', [PyFloat 0, PyFloat 0]), (''L'', [PyFloat 2, PyFloat 0])],
        zorder = 2\<rparr>],
      (2, 0))"
  by (simp add: draw_drift_length_def last_two_def)

lemma draw_multipole_magnet_example:
  "draw_multipole_magnet [] 0 0 0 3 1 =
     ([\<lparr>klass = ''magnet'',
        commands = [(''M'', [PyFloat 0, PyFloat (- 1)]), (''L'', [PyFloat 0, PyFloat 1]),
                    (''L'', [PyFloat 3, PyFloat 1]), (''L'', [PyFloat 3, PyFloat (- 1)]),
                    (''Z'', [])],
        zorder = 1\<rparr>,
       \<lparr>klass = ''central-ray'',
        commands = [(''M'', [PyFloat 0, PyFloat 0]), (''L'', [PyFloat 3, PyFloat 0])],
        zorder = 2\<rparr>],
      (3, 0))"
  by (simp add: draw_multipole_magnet_def last_two_def)

lemma two_levels_sorted:
  fixes f :: "'a \<Rightarrow> int"
  assumes "sorted (map f xs)" and "list_all (\<lambda>x. f x = 1 \<or> f x = 2) xs"
  shows "xs = filter (\<lambda>x. f x = 1) xs @ filter (\<lambda>x. f x = 2) xs"
  using assms
proof (induction xs)
  case Nil
  then show ?case by simp
next
  case (Cons x xs)
  then have IH: "xs = filter (\<lambda>x. f x = 1) xs @ filter (\<lambda>x. f x = 2) xs"
    by simp
  show ?case
  proof (cases "f x = 1")
    case True
    with IH show ?thesis by simp
  next
    case False
    with Cons.prems have fx: "f x = 2" by simp
    with Cons.prems have "\<forall>y \<in> set xs. f y = 2"
      by (fastforce simp: list_all_iff)
    then have "filter (\<lambda>x. f x = 1) xs = []" "filter (\<lambda>x. f x = 2) xs = xs"
      by (simp_all add: filter_empty_conv filter_id_conv)
    with fx show ?thesis by simp
  qed
qed

lemma sort_two_levels:
  assumes "list_all stacking_ok paths"
  shows "sort_key zorder paths = filter body_class paths @ filter overlay_class paths"
proof -
  have levels: "list_all (\<lambda>p. zorder p = 1 \<or> zorder p = 2) (sort_key zorder paths)"
    using assms by (auto simp: list_all_iff stacking_ok_def)
  have "sort_key zorder paths =
      filter (\<lambda>p. zorder p = 1) (sort_key zorder paths) @
      filter (\<lambda>p. zorder p = 2) (sort_key zorder paths)"
    by (rule two_levels_sorted [OF _ levels]) simp
  also have "\<dots> = filter (\<lambda>p. zorder p = 1) paths @ filter (\<lambda>p. zorder p = 2) paths"
    by (simp only: sort_key_stable)
  also have "filter (\<lambda>p. zorder p = 1) paths = filter body_class paths"
    using assms
    by (intro filter_cong refl)
      (auto simp: list_all_iff stacking_ok_def body_class_def overlay_class_def)
  also have "filter (\<lambda>p. zorder p = 2) paths = filter overlay_class paths"
    using assms
    by (intro filter_cong refl)
      (auto simp: list_all_iff stacking_ok_def body_class_def overlay_class_def)
  finally show ?thesis .
qed

section \<open>Properties of the bending magnet\<close>

lemma bend_kinematics_Inr:
  "field \<noteq> 0 \<Longrightarrow>
   bend_kinematics len field =
     Inr (14011 / (299800 * field), len * (299800 * field) / 14011)"
  by (simp add: bend_kinematics_def py_div_def central_momentum_def CENTRAL_ENERGY_def)

text \<open>What a call that gets past every raise appends and returns.\<close>

lemma draw_bending_magnet_success:
  assumes "bend_kinematics len field = Inr (r, ba)"
    and "pole_faces (x - r * sin \<theta>) (y + r * cos \<theta>) \<theta> r ba rmin rmax
           (rmin - 1.5 * gap) (rmax + 1.5 * gap) ins outs = Inr (bk, fr)"
    and "magnet_block (x - r * sin \<theta>) (y + r * cos \<theta>) \<theta> ba
           (rmin - 1.5 * gap) (rmax + 1.5 * gap) bk fr = Inr block"
  shows "draw_bending_magnet g x y \<theta> len field rmin rmax gap ins outs =
     (g @ [\<lparr>klass = ''magnet'', commands = block, zorder = 1\<rparr>,
           \<lparr>klass = ''guide'',
            commands = reference_arc (x - r * sin \<theta>) (y + r * cos \<theta>) \<theta> ba rmax,
            zorder = 2\<rparr>,
           \<lparr>klass = ''guide'',
            commands = reference_arc (x - r * sin \<theta>) (y + r * cos \<theta>) \<theta> ba rmin,
            zorder = 2\<rparr>,
           \<lparr>klass = ''central-ray'',
            commands = reference_arc (x - r * sin \<theta>) (y + r * cos \<theta>) \<theta> ba r,
            zorder = 2\<rparr>],
      Inr (x - r * sin \<theta> + r * sin (\<theta> + ba), y + r * cos \<theta> - r * cos (\<theta> + ba),
           \<theta> + ba))"
  using assms
  by (simp add: draw_bending_magnet_def Let_def reference_arc_def last_two_def)

text \<open>A call either fails and leaves the path list as it was, or gets past every raise.\<close>

lemma draw_bending_magnet_cases:
  obtains (fail) err where
      "draw_bending_magnet g x y \<theta> len field rmin rmax gap ins outs = (g, Inl err)"
  | (ok) r ba bk fr block where
      "bend_kinematics len field = Inr (r, ba)"
      "pole_faces (x - r * sin \<theta>) (y + r * cos \<theta>) \<theta> r ba rmin rmax
           (rmin - 1.5 * gap) (rmax + 1.5 * gap) ins outs = Inr (bk, fr)"
      "magnet_block (x - r * sin \<theta>) (y + r * cos \<theta>) \<theta> ba
           (rmin - 1.5 * gap) (rmax + 1.5 * gap) bk fr = Inr block"
proof (cases "bend_kinematics len field")
  case (Inl e)
  then show ?thesis using fail by (simp add: draw_bending_magnet_def)
next
  case (Inr rb)
  obtain r ba where rb: "rb = (r, ba)" by (cases rb)
  show ?thesis
  proof (cases "pole_faces (x - r * sin \<theta>) (y + r * cos \<theta>) \<theta> r ba rmin rmax
           (rmin - 1.5 * gap) (rmax + 1.5 * gap) ins outs")
    case (Inl e)
    then show ?thesis using fail Inr rb by (simp add: draw_bending_magnet_def Let_def)
  next
    case pf: (Inr bf)
    obtain bk fr where bf: "bf = (bk, fr)" by (cases bf)
    show ?thesis
    proof (cases "magnet_block (x - r * sin \<theta>) (y + r * cos \<theta>) \<theta> ba
           (rmin - 1.5 * gap) (rmax + 1.5 * gap) bk fr")
      case (Inl e)
      then show ?thesis using fail Inr rb pf bf by (simp add: draw_bending_magnet_def Let_def)
    next
      case mb: (Inr block)
      show ?thesis using ok [of r ba bk fr block] Inr rb pf bf mb by simp
    qed
  qed
qed

lemma draw_bending_magnet_Inr:
  assumes "snd (draw_bending_magnet g x y \<theta> len field rmin rmax gap ins outs) = Inr res"
  shows "\<exists>r ba bk fr block.
      bend_kinematics len field = Inr (r, ba) \<and>
      pole_faces (x - r * sin \<theta>) (y + r * cos \<theta>) \<theta> r ba rmin rmax
           (rmin - 1.5 * gap) (rmax + 1.5 * gap) ins outs = Inr (bk, fr) \<and>
      magnet_block (x - r * sin \<theta>) (y + r * cos \<theta>) \<theta> ba
           (rmin - 1.5 * gap) (rmax + 1.5 * gap) bk fr = Inr block"
proof -
  consider (fail) err where
      "draw_bending_magnet g x y \<theta> len field rmin rmax gap ins outs = (g, Inl err)"
  | (ok) r ba bk fr block where
      "bend_kinematics len field = Inr (r, ba)"
      "pole_faces (x - r * sin \<theta>) (y + r * cos \<theta>) \<theta> r ba rmin rmax
           (rmin - 1.5 * gap) (rmax + 1.5 * gap) ins outs = Inr (bk, fr)"
      "magnet_block (x - r * sin \<theta>) (y + r * cos \<theta>) \<theta> ba
           (rmin - 1.5 * gap) (rmax + 1.5 * gap) bk fr = Inr block"
    by (rule draw_bending_magnet_cases)
  then show ?thesis
  proof cases
    case fail
    with assms show ?thesis by simp
  next
    case ok
    then show ?thesis by blast
  qed
qed

lemma pole_faces_Inr:
  assumes "pole_faces xc yc \<theta> r ba rmin rmax rlo rhi ins outs = Inr (bk, fr)"
  shows "\<exists>\<zeta>_back \<zeta>.
      evaluate_polynomial (linspace (rlo - r) (rhi - r) 21) (0 # ins) (rmin - r) (rmax - r) =
        Inr \<zeta>_back \<and>
      evaluate_polynomial (linspace (rlo - r) (rhi - r) 21) (0 # outs) (rmin - r) (rmax - r) =
        Inr \<zeta> \<and>
      bk = within_radius xc yc rhi
             (pole_face xc yc r \<theta> (linspace (rlo - r) (rhi - r) 21) \<zeta>_back) \<and>
      fr = within_radius xc yc rhi
             (pole_face xc yc r (\<theta> + ba) (linspace (rlo - r) (rhi - r) 21) (map uminus \<zeta>))"
  using assms by (auto simp: pole_faces_def Let_def split: sum.splits)

lemma no_arc_line_to: "filter (\<lambda>c. fst c = ''A'') (map line_to ps) = []"
  by (induction ps) (simp_all add: line_to_def)

lemma arc_commands_block:
  "magnet_block xc yc \<theta> ba rlo rhi bk fr = Inr block \<Longrightarrow>
   filter (\<lambda>c. fst c = ''A'') block =
     [(''A'', [PyFloat rhi, PyFloat rhi, PyInt 0, large_arc ba, PyInt 1,
               PyFloat (fst (last fr)), PyFloat (snd (last fr))]),
      (''A'', [PyFloat rlo, PyFloat rlo, PyInt 0, large_arc ba, PyInt 0,
               PyFloat (xc + rlo * sin \<theta>), PyFloat (yc - rlo * cos \<theta>)])]"
  by (auto simp: magnet_block_def no_arc_line_to split: if_splits)

subsection \<open>The geometry of a sampled pole-face point\<close>

lemma linspace_first: "0 < num \<Longrightarrow> start \<in> set (linspace start stop num)"
  by (auto simp: linspace_def image_iff intro!: bexI [of _ 0])

lemma within_radius_nonempty:
  "p \<in> set pts \<Longrightarrow> radial_distance xc yc p \<le> m \<Longrightarrow> within_radius xc yc m pts \<noteq> []"
  by (auto simp: within_radius_def filter_empty_conv)

lemma radial_distance_pole_point:
  "radial_distance xc yc
     (xc + (r + \<xi>) * sin \<phi> + \<zeta> * cos \<phi>, yc - (r + \<xi>) * cos \<phi> + \<zeta> * sin \<phi>) =
   sqrt ((r + \<xi>) * (r + \<xi>) + \<zeta> * \<zeta>)"
proof -
  have expand: "(A * s + Z * c) * (A * s + Z * c) + (Z * s - A * c) * (Z * s - A * c) =
      (A * A + Z * Z) * (s * s + c * c)" for A Z s c :: real
    by (simp add: algebra_simps)
  have unit: "sin \<phi> * sin \<phi> + cos \<phi> * cos \<phi> = 1"
    by (simp flip: power2_eq_square)
  have "radial_distance xc yc
     (xc + (r + \<xi>) * sin \<phi> + \<zeta> * cos \<phi>, yc - (r + \<xi>) * cos \<phi> + \<zeta> * sin \<phi>) =
     sqrt (((r + \<xi>) * sin \<phi> + \<zeta> * cos \<phi>) * ((r + \<xi>) * sin \<phi> + \<zeta> * cos \<phi>) +
           (\<zeta> * sin \<phi> - (r + \<xi>) * cos \<phi>) * (\<zeta> * sin \<phi> - (r + \<xi>) * cos \<phi>))"
    by (simp add: radial_distance_def hypot_def)
  also have "\<dots> = sqrt ((r + \<xi>) * (r + \<xi>) + \<zeta> * \<zeta>)"
    by (simp only: expand unit mult_1_right)
  finally show ?thesis .
qed

lemma pole_face_map:
  "pole_face xc yc r \<phi> \<xi> (map f \<xi>) =
   map (\<lambda>s. (xc + (r + s) * sin \<phi> + f s * cos \<phi>, yc - (r + s) * cos \<phi> + f s * sin \<phi>)) \<xi>"
  by (simp add: pole_face_def zip_map2 zip_same_conv_map)

subsection \<open>An example call\<close>

text \<open>
  From the origin with heading \<open>0\<close>: length \<open>1\<close> and a field that gives the central bend
  radius \<open>1\<close> (so the bend angle is \<open>1\<close>), pole-face radii \<open>1/2\<close> and \<open>2\<close>, gap height
  \<open>1/5\<close>, and the shape \<open>\<zeta> = \<xi>\<close> on both faces.
\<close>

lemma example_kin: "bend_kinematics 1 (14011 / 299800) = Inr (1, 1)"
  by (simp add: bend_kinematics_Inr)

lemma example_poly:
  "evaluate_polynomial \<xi> [0, 1, 0, 0] (- (1 / 2)) 1 = Inr (map (\<lambda>s. s) \<xi>)"
  by (simp add: evaluate_polynomial_def polynomial_at_def py_pow_def enumerate_eq_zip
      cong: if_cong)

lemma example_faces_nonempty:
  assumes "f (- (4 / 5)) * f (- (4 / 5)) \<le> 1"
  shows "within_radius 0 1 (23 / 10)
     (pole_face 0 1 1 \<phi> (linspace (- (4 / 5)) (13 / 10) 21)
        (map f (linspace (- (4 / 5)) (13 / 10) 21))) \<noteq> []"
proof (rule within_radius_nonempty)
  show "(0 + (1 + - (4 / 5)) * sin \<phi> + f (- (4 / 5)) * cos \<phi>,
         1 - (1 + - (4 / 5)) * cos \<phi> + f (- (4 / 5)) * sin \<phi>)
        \<in> set (pole_face 0 1 1 \<phi> (linspace (- (4 / 5)) (13 / 10) 21)
        (map f (linspace (- (4 / 5)) (13 / 10) 21)))"
    unfolding pole_face_map using linspace_first [of 21 "- (4 / 5)" "13 / 10"]
    by (auto simp: image_iff intro!: bexI [of _ "- (4 / 5)"])
  have "sqrt ((1 + - (4 / 5)) * (1 + - (4 / 5)) + f (- (4 / 5)) * f (- (4 / 5))) \<le> 23 / 10"
    by (rule real_le_lsqrt) (use assms in \<open>simp_all add: power2_eq_square\<close>)
  then show "radial_distance 0 1 (0 + (1 + - (4 / 5)) * sin \<phi> + f (- (4 / 5)) * cos \<phi>,
         1 - (1 + - (4 / 5)) * cos \<phi> + f (- (4 / 5)) * sin \<phi>) \<le> 23 / 10"
    unfolding radial_distance_pole_point .
qed

lemma example_success:
  "snd (draw_bending_magnet [] 0 0 0 1 (14011 / 299800) (1 / 2) 2 (1 / 5) [1, 0, 0] [1, 0, 0]) =
   Inr (sin 1, 1 - cos 1, 1)"
proof -
  let ?\<xi> = "linspace (- (4 / 5)) (13 / 10) 21"
  let ?bk = "within_radius 0 1 (23 / 10) (pole_face 0 1 1 0 ?\<xi> (map (\<lambda>s. s) ?\<xi>))"
  let ?fr = "within_radius 0 1 (23 / 10) (pole_face 0 1 1 1 ?\<xi> (map uminus ?\<xi>))"
  have faces: "pole_faces (0 - 1 * sin 0) (0 + 1 * cos 0) 0 1 1 (1 / 2) 2
        (1 / 2 - 1.5 * (1 / 5)) (2 + 1.5 * (1 / 5)) [1, 0, 0] [1, 0, 0] = Inr (?bk, ?fr)"
    by (simp add: pole_faces_def example_poly Let_def)
  have "\<exists>block. magnet_block 0 1 0 1 (1 / 5) (23 / 10) ?bk ?fr = Inr block"
    using example_faces_nonempty [of "\<lambda>s. s" 0] example_faces_nonempty [of uminus 1]
    by (simp add: magnet_block_def)
  then obtain block where
    "magnet_block (0 - 1 * sin 0) (0 + 1 * cos 0) 0 1
       (1 / 2 - 1.5 * (1 / 5)) (2 + 1.5 * (1 / 5)) ?bk ?fr = Inr block"
    by auto
  from draw_bending_magnet_success [OF example_kin faces this, of "[]"] show ?thesis
    by simp
qed

text \<open>
  In the example call the outermost back-face sample, at \<open>\<xi> = 13/10\<close> with \<open>\<zeta> = 13/10\<close>,
  lies beyond the max extended radius \<open>23/10\<close> and is clipped.
\<close>

lemma linspace_last: "1 < num \<Longrightarrow> stop \<in> set (linspace start stop num)"
proof -
  assume num: "1 < num"
  then have "start + real (num - 1) * ((stop - start) / real (num - 1)) = stop"
    by simp
  moreover from num have "num - 1 \<in> set [0..<num]" by simp
  ultimately show ?thesis
    unfolding linspace_def set_map by (metis (no_types, lifting) image_eqI)
qed

lemma example_clipping:
  "(13 / 10, - (13 / 10)) \<in> set (pole_face 0 1 1 0 (linspace (- (4 / 5)) (13 / 10) 21)
        (map (\<lambda>s. s) (linspace (- (4 / 5)) (13 / 10) 21))) \<and>
   (13 / 10, - (13 / 10)) \<notin> set (within_radius 0 1 (23 / 10)
      (pole_face 0 1 1 0 (linspace (- (4 / 5)) (13 / 10) 21)
        (map (\<lambda>s. s) (linspace (- (4 / 5)) (13 / 10) 21))))"
proof
  show "(13 / 10, - (13 / 10)) \<in> set (pole_face 0 1 1 0 (linspace (- (4 / 5)) (13 / 10) 21)
        (map (\<lambda>s. s) (linspace (- (4 / 5)) (13 / 10) 21)))"
    unfolding pole_face_map using linspace_last [of 21 "13 / 10" "- (4 / 5)"]
    by (auto simp: image_iff intro!: bexI [of _ "13 / 10"])
  have "23 / 10 < sqrt ((13 / 10) * (13 / 10) + (23 / 10) * (23 / 10 :: real))"
    by (rule real_less_rsqrt) (simp add: power2_eq_square)
  then have "\<not> radial_distance 0 1 (13 / 10, - (13 / 10)) \<le> 23 / 10"
    by (simp add: radial_distance_def hypot_def)
  then show "(13 / 10, - (13 / 10)) \<notin> set (within_radius 0 1 (23 / 10)
      (pole_face 0 1 1 0 (linspace (- (4 / 5)) (13 / 10) 21)
        (map (\<lambda>s. s) (linspace (- (4 / 5)) (13 / 10) 21))))"
    by (simp add: within_radius_def)
qed

section \<open>The claims about the renderers\<close>

text \<open>
  C3. Every arc command that the bending-magnet renderer appends carries, as its fourth
  operand, the large-arc flag \<open>0\<close> when the bend angle is at most \<open>\<pi>\<close> and \<open>1\<close> when it is
  greater, for every bend angle; a call that returns appends five arc commands (two of the
  iron block, three reference arcs) and a call that raises appends none.
\<close>

theorem bending_magnet_arc_flags:
  assumes "bend_kinematics len field = Inr (r, ba)"
  shows "list_all (\<lambda>c. snd c ! 3 = PyInt (if ba \<le> pi then 0 else 1))
           (arc_commands (drop (length g)
              (fst (draw_bending_magnet g x y \<theta> len field rmin rmax gap ins outs)))) \<and>
         length (arc_commands (drop (length g)
              (fst (draw_bending_magnet g x y \<theta> len field rmin rmax gap ins outs)))) =
           (case snd (draw_bending_magnet g x y \<theta> len field rmin rmax gap ins outs) of
              Inl err \<Rightarrow> 0 | Inr res \<Rightarrow> 5)"
proof -
  consider (fail) err where
      "draw_bending_magnet g x y \<theta> len field rmin rmax gap ins outs = (g, Inl err)"
  | (ok) r' ba' bk fr block where
      "bend_kinematics len field = Inr (r', ba')"
      "pole_faces (x - r' * sin \<theta>) (y + r' * cos \<theta>) \<theta> r' ba' rmin rmax
           (rmin - 1.5 * gap) (rmax + 1.5 * gap) ins outs = Inr (bk, fr)"
      "magnet_block (x - r' * sin \<theta>) (y + r' * cos \<theta>) \<theta> ba'
           (rmin - 1.5 * gap) (rmax + 1.5 * gap) bk fr = Inr block"
    by (rule draw_bending_magnet_cases)
  then show ?thesis
  proof cases
    case fail
    then show ?thesis by (simp add: arc_commands_def)
  next
    case ok
    with assms have eq: "r' = r" "ba' = ba" by simp_all
    note run = draw_bending_magnet_success [OF ok(1) ok(2) ok(3), of g, unfolded eq]
    have blk: "filter (\<lambda>c. fst c = ''A'') block =
       [(''A'', [PyFloat (rmax + 1.5 * gap), PyFloat (rmax + 1.5 * gap), PyInt 0,
                 large_arc ba, PyInt 1, PyFloat (fst (last fr)), PyFloat (snd (last fr))]),
        (''A'', [PyFloat (rmin - 1.5 * gap), PyFloat (rmin - 1.5 * gap), PyInt 0,
                 large_arc ba, PyInt 0,
                 PyFloat (x - r * sin \<theta> + (rmin - 1.5 * gap) * sin \<theta>),
                 PyFloat (y + r * cos \<theta> - (rmin - 1.5 * gap) * cos \<theta>)])]"
      using arc_commands_block [OF ok(3)] by (simp add: eq)
    show ?thesis
      by (simp add: run arc_commands_def blk reference_arc_def large_arc_def)
  qed
qed

text \<open>
  The example call has bend angle \<open>1 \<le> \<pi>\<close>: it appends five arc commands, each with the
  flag \<open>0\<close>.
\<close>

theorem bending_magnet_arc_flags_witness:
  "list_all (\<lambda>c. snd c ! 3 = PyInt 0)
     (arc_commands (drop (length ([] :: Path list))
        (fst (draw_bending_magnet [] 0 0 0 1 (14011 / 299800) (1 / 2) 2 (1 / 5)
                [1, 0, 0] [1, 0, 0])))) \<and>
   length (arc_commands (drop (length ([] :: Path list))
        (fst (draw_bending_magnet [] 0 0 0 1 (14011 / 299800) (1 / 2) 2 (1 / 5)
                [1, 0, 0] [1, 0, 0])))) = 5"
proof -
  have "(1::real) \<le> pi" using pi_ge_two by simp
  with bending_magnet_arc_flags
         [OF example_kin, of "[]" 0 0 0 "1 / 2" 2 "1 / 5" "[1, 0, 0]" "[1, 0, 0]"]
    example_success
  show ?thesis by simp
qed

text \<open>
  C4. The renderer's momentum is \<open>(0.5110 + 13.5) * energy_unit_conversion / speed_of_light\<close>,
  and for a positive field strength and a positive length it computes the central bend
  radius \<open>momentum / (elementary_charge * field_strength)\<close> and the bend angle
  \<open>length / central_bend_radius\<close>; these are the values a returning call uses: it adds the
  bend angle to the heading and draws its last arc, the central ray, with the central bend
  radius around the bend center.
\<close>

theorem bend_kinematics_formulas:
  assumes "0 < field" and "0 < len"
  shows "central_momentum = spec_momentum \<and>
         bend_kinematics len field =
           Inr (spec_central_bend_radius field, spec_bend_angle len field) \<and>
         (case draw_bending_magnet g x y \<theta> len field rmin rmax gap ins outs of
            (g', Inl err) \<Rightarrow> True
          | (g', Inr (x', y', \<theta>')) \<Rightarrow>
              \<theta>' = \<theta> + spec_bend_angle len field \<and>
              commands (last g') =
                reference_arc (x - spec_central_bend_radius field * sin \<theta>)
                  (y + spec_central_bend_radius field * cos \<theta>) \<theta>
                  (spec_bend_angle len field) (spec_central_bend_radius field))"
proof -
  have momentum: "central_momentum = spec_momentum"
    by (simp add: central_momentum_def CENTRAL_ENERGY_def spec_momentum_def rest_energy_def
        kinetic_energy_def energy_unit_conversion_def speed_of_light_def)
  have kin: "bend_kinematics len field =
           Inr (spec_central_bend_radius field, spec_bend_angle len field)"
    using assms
    by (simp add: bend_kinematics_Inr spec_central_bend_radius_def spec_bend_angle_def
        spec_momentum_def rest_energy_def kinetic_energy_def energy_unit_conversion_def
        speed_of_light_def elementary_charge_def)
  consider (fail) err where
      "draw_bending_magnet g x y \<theta> len field rmin rmax gap ins outs = (g, Inl err)"
  | (ok) r ba bk fr block where
      "bend_kinematics len field = Inr (r, ba)"
      "pole_faces (x - r * sin \<theta>) (y + r * cos \<theta>) \<theta> r ba rmin rmax
           (rmin - 1.5 * gap) (rmax + 1.5 * gap) ins outs = Inr (bk, fr)"
      "magnet_block (x - r * sin \<theta>) (y + r * cos \<theta>) \<theta> ba
           (rmin - 1.5 * gap) (rmax + 1.5 * gap) bk fr = Inr block"
    by (rule draw_bending_magnet_cases)
  then have "case draw_bending_magnet g x y \<theta> len field rmin rmax gap ins outs of
            (g', Inl err) \<Rightarrow> True
          | (g', Inr (x', y', \<theta>')) \<Rightarrow>
              \<theta>' = \<theta> + spec_bend_angle len field \<and>
              commands (last g') =
                reference_arc (x - spec_central_bend_radius field * sin \<theta>)
                  (y + spec_central_bend_radius field * cos \<theta>) \<theta>
                  (spec_bend_angle len field) (spec_central_bend_radius field)"
  proof cases
    case fail
    then show ?thesis by simp
  next
    case ok
    with kin have eq: "r = spec_central_bend_radius field" "ba = spec_bend_angle len field"
      by simp_all
    show ?thesis
      using draw_bending_magnet_success [OF ok, of g]
      by (simp add: eq)
  qed
  with momentum kin show ?thesis by blast
qed

text \<open>
  In the example call the field is chosen so that the central bend radius is \<open>1\<close>; the
  length \<open>1\<close> then gives the bend angle \<open>1\<close>, which the call adds to the heading \<open>0\<close>.
\<close>

theorem bend_kinematics_formulas_witness:
  "central_momentum = spec_momentum \<and>
   bend_kinematics 1 (14011 / 299800) =
     Inr (spec_central_bend_radius (14011 / 299800), spec_bend_angle 1 (14011 / 299800)) \<and>
   spec_central_bend_radius (14011 / 299800) = 1 \<and> spec_bend_angle 1 (14011 / 299800) = 1 \<and>
   snd (draw_bending_magnet [] 0 0 0 1 (14011 / 299800) (1 / 2) 2 (1 / 5) [1, 0, 0] [1, 0, 0]) =
     Inr (sin 1, 1 - cos 1, 0 + spec_bend_angle 1 (14011 / 299800))"
proof -
  have pos: "(0::real) < 14011 / 299800" "(0::real) < 1" by simp_all
  from bend_kinematics_formulas [OF pos] example_kin example_success show ?thesis
    by simp
qed

text \<open>
  C5. A call that returns \<open>(x', y', \<theta>')\<close> from the ray state \<open>(x, y, \<theta>)\<close> returns the
  heading \<open>\<theta> + bend_angle\<close> and the position
  \<open>(x_center + central_bend_radius * sin (\<theta> + bend_angle),
    y_center - central_bend_radius * cos (\<theta> + bend_angle))\<close>, with
  \<open>x_center = x - central_bend_radius * sin \<theta>\<close> and
  \<open>y_center = y + central_bend_radius * cos \<theta>\<close>; this position is the end point of the
  arc command of the last path appended, the central-radius reference arc.
\<close>

theorem bending_magnet_returns_arc_end:
  assumes "snd (draw_bending_magnet g x y \<theta> len field rmin rmax gap ins outs) =
             Inr (x', y', \<theta>')"
  shows "\<exists>r ba. bend_kinematics len field = Inr (r, ba) \<and>
           \<theta>' = \<theta> + ba \<and>
           x' = (x - r * sin \<theta>) + r * sin (\<theta> + ba) \<and>
           y' = (y + r * cos \<theta>) - r * cos (\<theta> + ba) \<and>
           last (fst (draw_bending_magnet g x y \<theta> len field rmin rmax gap ins outs)) =
             \<lparr>klass = ''central-ray'',
              commands = reference_arc (x - r * sin \<theta>) (y + r * cos \<theta>) \<theta> ba r,
              zorder = 2\<rparr> \<and>
           last (reference_arc (x - r * sin \<theta>) (y + r * cos \<theta>) \<theta> ba r) =
             (''A'', [PyFloat r, PyFloat r, PyInt 0, large_arc ba, PyInt 1,
                      PyFloat x', PyFloat y'])"
proof -
  from draw_bending_magnet_Inr [OF assms] obtain r ba bk fr block where ok:
      "bend_kinematics len field = Inr (r, ba)"
      "pole_faces (x - r * sin \<theta>) (y + r * cos \<theta>) \<theta> r ba rmin rmax
           (rmin - 1.5 * gap) (rmax + 1.5 * gap) ins outs = Inr (bk, fr)"
      "magnet_block (x - r * sin \<theta>) (y + r * cos \<theta>) \<theta> ba
           (rmin - 1.5 * gap) (rmax + 1.5 * gap) bk fr = Inr block"
    by blast
  note run = draw_bending_magnet_success [OF ok, of g]
  from assms have res: "x' = (x - r * sin \<theta>) + r * sin (\<theta> + ba)"
      "y' = (y + r * cos \<theta>) - r * cos (\<theta> + ba)" "\<theta>' = \<theta> + ba"
    by (auto simp: run)
  have "last (fst (draw_bending_magnet g x y \<theta> len field rmin rmax gap ins outs)) =
             \<lparr>klass = ''central-ray'',
              commands = reference_arc (x - r * sin \<theta>) (y + r * cos \<theta>) \<theta> ba r,
              zorder = 2\<rparr>"
    by (simp add: run)
  moreover have "last (reference_arc (x - r * sin \<theta>) (y + r * cos \<theta>) \<theta> ba r) =
             (''A'', [PyFloat r, PyFloat r, PyInt 0, large_arc ba, PyInt 1,
                      PyFloat x', PyFloat y'])"
    by (simp add: reference_arc_def res)
  ultimately show ?thesis
    using ok(1) res by blast
qed

text \<open>The example call returns the heading \<open>1\<close> and the position \<open>(sin 1, 1 - cos 1)\<close>.\<close>

theorem bending_magnet_returns_arc_end_witness:
  "\<exists>r ba. bend_kinematics 1 (14011 / 299800) = Inr (r, ba) \<and>
           (1::real) = 0 + ba \<and>
           sin 1 = (0 - r * sin 0) + r * sin (0 + ba) \<and>
           1 - cos 1 = (0 + r * cos 0) - r * cos (0 + ba) \<and>
           last (fst (draw_bending_magnet [] 0 0 0 1 (14011 / 299800) (1 / 2) 2 (1 / 5)
                        [1, 0, 0] [1, 0, 0])) =
             \<lparr>klass = ''central-ray'',
              commands = reference_arc (0 - r * sin 0) (0 + r * cos 0) 0 ba r,
              zorder = 2\<rparr> \<and>
           last (reference_arc (0 - r * sin 0) (0 + r * cos 0) 0 ba r) =
             (''A'', [PyFloat r, PyFloat r, PyInt 0, large_arc ba, PyInt 1,
                      PyFloat (sin 1), PyFloat (1 - cos 1)])"
  by (rule bending_magnet_returns_arc_end [OF example_success])

text \<open>
  C7. In a call that returns, the closed polygon of the magnet (the first path appended) is
  the block built from the clipped back face \<open>bk\<close> and the clipped front face \<open>fr\<close>, where
  each is the list of the 21 sampled face points filtered by
  \<open>radial distance from the bend center \<le> max extended radius\<close>: every point kept is within
  the max extended radius, and every sampled point beyond it is left out.
\<close>

theorem clipped_pole_faces:
  assumes "snd (draw_bending_magnet g x y \<theta> len field rmin rmax gap ins outs) = Inr res"
  shows "\<exists>r ba \<zeta>_back \<zeta> bk fr.
     bend_kinematics len field = Inr (r, ba) \<and>
     evaluate_polynomial (linspace (rmin - 1.5 * gap - r) (rmax + 1.5 * gap - r) 21) (0 # ins)
       (rmin - r) (rmax - r) = Inr \<zeta>_back \<and>
     evaluate_polynomial (linspace (rmin - 1.5 * gap - r) (rmax + 1.5 * gap - r) 21) (0 # outs)
       (rmin - r) (rmax - r) = Inr \<zeta> \<and>
     bk = filter (\<lambda>p. radial_distance (x - r * sin \<theta>) (y + r * cos \<theta>) p \<le> rmax + 1.5 * gap)
            (pole_face (x - r * sin \<theta>) (y + r * cos \<theta>) r \<theta>
               (linspace (rmin - 1.5 * gap - r) (rmax + 1.5 * gap - r) 21) \<zeta>_back) \<and>
     fr = filter (\<lambda>p. radial_distance (x - r * sin \<theta>) (y + r * cos \<theta>) p \<le> rmax + 1.5 * gap)
            (pole_face (x - r * sin \<theta>) (y + r * cos \<theta>) r (\<theta> + ba)
               (linspace (rmin - 1.5 * gap - r) (rmax + 1.5 * gap - r) 21) (map uminus \<zeta>)) \<and>
     magnet_block (x - r * sin \<theta>) (y + r * cos \<theta>) \<theta> ba (rmin - 1.5 * gap) (rmax + 1.5 * gap)
       bk fr =
       Inr (commands (fst (draw_bending_magnet g x y \<theta> len field rmin rmax gap ins outs)
              ! length g)) \<and>
     list_all (\<lambda>p. radial_distance (x - r * sin \<theta>) (y + r * cos \<theta>) p \<le> rmax + 1.5 * gap) bk \<and>
     list_all (\<lambda>p. radial_distance (x - r * sin \<theta>) (y + r * cos \<theta>) p \<le> rmax + 1.5 * gap) fr \<and>
     list_all (\<lambda>p. rmax + 1.5 * gap < radial_distance (x - r * sin \<theta>) (y + r * cos \<theta>) p
                 \<longrightarrow> p \<notin> set bk)
       (pole_face (x - r * sin \<theta>) (y + r * cos \<theta>) r \<theta>
               (linspace (rmin - 1.5 * gap - r) (rmax + 1.5 * gap - r) 21) \<zeta>_back) \<and>
     list_all (\<lambda>p. rmax + 1.5 * gap < radial_distance (x - r * sin \<theta>) (y + r * cos \<theta>) p
                 \<longrightarrow> p \<notin> set fr)
       (pole_face (x - r * sin \<theta>) (y + r * cos \<theta>) r (\<theta> + ba)
               (linspace (rmin - 1.5 * gap - r) (rmax + 1.5 * gap - r) 21) (map uminus \<zeta>))"
proof -
  from draw_bending_magnet_Inr [OF assms] obtain r ba bk fr block where ok:
      "bend_kinematics len field = Inr (r, ba)"
      "pole_faces (x - r * sin \<theta>) (y + r * cos \<theta>) \<theta> r ba rmin rmax
           (rmin - 1.5 * gap) (rmax + 1.5 * gap) ins outs = Inr (bk, fr)"
      "magnet_block (x - r * sin \<theta>) (y + r * cos \<theta>) \<theta> ba
           (rmin - 1.5 * gap) (rmax + 1.5 * gap) bk fr = Inr block"
    by blast
  from pole_faces_Inr [OF ok(2)] obtain zb z where faces:
    "evaluate_polynomial (linspace (rmin - 1.5 * gap - r) (rmax + 1.5 * gap - r) 21) (0 # ins)
       (rmin - r) (rmax - r) = Inr zb"
    "evaluate_polynomial (linspace (rmin - 1.5 * gap - r) (rmax + 1.5 * gap - r) 21) (0 # outs)
       (rmin - r) (rmax - r) = Inr z"
    "bk = filter (\<lambda>p. radial_distance (x - r * sin \<theta>) (y + r * cos \<theta>) p \<le> rmax + 1.5 * gap)
            (pole_face (x - r * sin \<theta>) (y + r * cos \<theta>) r \<theta>
               (linspace (rmin - 1.5 * gap - r) (rmax + 1.5 * gap - r) 21) zb)"
    "fr = filter (\<lambda>p. radial_distance (x - r * sin \<theta>) (y + r * cos \<theta>) p \<le> rmax + 1.5 * gap)
            (pole_face (x - r * sin \<theta>) (y + r * cos \<theta>) r (\<theta> + ba)
               (linspace (rmin - 1.5 * gap - r) (rmax + 1.5 * gap - r) 21) (map uminus z))"
    unfolding within_radius_def by blast
  have block: "magnet_block (x - r * sin \<theta>) (y + r * cos \<theta>) \<theta> ba (rmin - 1.5 * gap)
       (rmax + 1.5 * gap) bk fr =
       Inr (commands (fst (draw_bending_magnet g x y \<theta> len field rmin rmax gap ins outs)
              ! length g))"
    using ok(3) by (simp add: draw_bending_magnet_success [OF ok, of g])
  have kept:
    "list_all (\<lambda>p. radial_distance (x - r * sin \<theta>) (y + r * cos \<theta>) p \<le> rmax + 1.5 * gap) bk"
    "list_all (\<lambda>p. radial_distance (x - r * sin \<theta>) (y + r * cos \<theta>) p \<le> rmax + 1.5 * gap) fr"
    by (simp_all add: faces(3,4) list_all_iff)
  have dropped:
    "list_all (\<lambda>p. rmax + 1.5 * gap < radial_distance (x - r * sin \<theta>) (y + r * cos \<theta>) p
                 \<longrightarrow> p \<notin> set bk)
       (pole_face (x - r * sin \<theta>) (y + r * cos \<theta>) r \<theta>
               (linspace (rmin - 1.5 * gap - r) (rmax + 1.5 * gap - r) 21) zb)"
    "list_all (\<lambda>p. rmax + 1.5 * gap < radial_distance (x - r * sin \<theta>) (y + r * cos \<theta>) p
                 \<longrightarrow> p \<notin> set fr)
       (pole_face (x - r * sin \<theta>) (y + r * cos \<theta>) r (\<theta> + ba)
               (linspace (rmin - 1.5 * gap - r) (rmax + 1.5 * gap - r) 21) (map uminus z))"
    by (simp_all add: faces(3,4) list_all_iff)
  from ok(1) faces block kept dropped show ?thesis by blast
qed

text \<open>The statement at the example call, which returns.\<close>

theorem clipped_pole_faces_witness:
  "\<exists>r ba \<zeta>_back \<zeta> bk fr.
     bend_kinematics 1 (14011 / 299800) = Inr (r, ba) \<and>
     evaluate_polynomial (linspace (1 / 2 - 1.5 * (1 / 5) - r) (2 + 1.5 * (1 / 5) - r) 21)
       (0 # [1, 0, 0]) (1 / 2 - r) (2 - r) = Inr \<zeta>_back \<and>
     evaluate_polynomial (linspace (1 / 2 - 1.5 * (1 / 5) - r) (2 + 1.5 * (1 / 5) - r) 21)
       (0 # [1, 0, 0]) (1 / 2 - r) (2 - r) = Inr \<zeta> \<and>
     bk = filter (\<lambda>p. radial_distance (0 - r * sin 0) (0 + r * cos 0) p \<le> 2 + 1.5 * (1 / 5))
            (pole_face (0 - r * sin 0) (0 + r * cos 0) r 0
               (linspace (1 / 2 - 1.5 * (1 / 5) - r) (2 + 1.5 * (1 / 5) - r) 21) \<zeta>_back) \<and>
     fr = filter (\<lambda>p. radial_distance (0 - r * sin 0) (0 + r * cos 0) p \<le> 2 + 1.5 * (1 / 5))
            (pole_face (0 - r * sin 0) (0 + r * cos 0) r (0 + ba)
               (linspace (1 / 2 - 1.5 * (1 / 5) - r) (2 + 1.5 * (1 / 5) - r) 21)
               (map uminus \<zeta>)) \<and>
     magnet_block (0 - r * sin 0) (0 + r * cos 0) 0 ba (1 / 2 - 1.5 * (1 / 5))
       (2 + 1.5 * (1 / 5)) bk fr =
       Inr (commands (fst (draw_bending_magnet [] 0 0 0 1 (14011 / 299800) (1 / 2) 2 (1 / 5)
                             [1, 0, 0] [1, 0, 0])
              ! length ([] :: Path list))) \<and>
     list_all (\<lambda>p. radial_distance (0 - r * sin 0) (0 + r * cos 0) p \<le> 2 + 1.5 * (1 / 5)) bk \<and>
     list_all (\<lambda>p. radial_distance (0 - r * sin 0) (0 + r * cos 0) p \<le> 2 + 1.5 * (1 / 5)) fr \<and>
     list_all (\<lambda>p. 2 + 1.5 * (1 / 5) < radial_distance (0 - r * sin 0) (0 + r * cos 0) p
                 \<longrightarrow> p \<notin> set bk)
       (pole_face (0 - r * sin 0) (0 + r * cos 0) r 0
               (linspace (1 / 2 - 1.5 * (1 / 5) - r) (2 + 1.5 * (1 / 5) - r) 21) \<zeta>_back) \<and>
     list_all (\<lambda>p. 2 + 1.5 * (1 / 5) < radial_distance (0 - r * sin 0) (0 + r * cos 0) p
                 \<longrightarrow> p \<notin> set fr)
       (pole_face (0 - r * sin 0) (0 + r * cos 0) r (0 + ba)
               (linspace (1 / 2 - 1.5 * (1 / 5) - r) (2 + 1.5 * (1 / 5) - r) 21)
               (map uminus \<zeta>))"
  by (rule clipped_pole_faces [OF example_success])

text \<open>
  C8. Every renderer call returns the path list it received followed by the records it
  appends: the records present before the call are all there, unchanged and in their order.
  This holds for a bending-magnet call that raises as well, which appends nothing.
\<close>

theorem renderers_only_append:
  "(\<exists>new. draw_plane g x y \<theta> left right_arg = g @ new) \<and>
   (\<exists>new. fst (draw_drift_length g x y \<theta> len) = g @ new) \<and>
   (\<exists>new. fst (draw_multipole_magnet g x y \<theta> len radius) = g @ new) \<and>
   (\<exists>new. fst (draw_bending_magnet g x y \<theta> len field rmin rmax gap ins outs) = g @ new)"
proof -
  have plane: "\<exists>new. draw_plane g x y \<theta> left right_arg = g @ new"
    by (simp add: draw_plane_def Let_def)
  have drift: "\<exists>new. fst (draw_drift_length g x y \<theta> len) = g @ new"
    by (simp add: draw_drift_length_def Let_def)
  have multipole: "\<exists>new. fst (draw_multipole_magnet g x y \<theta> len radius) = g @ new"
    by (simp add: draw_multipole_magnet_def Let_def)
  consider (fail) err where
      "draw_bending_magnet g x y \<theta> len field rmin rmax gap ins outs = (g, Inl err)"
  | (ok) r ba bk fr block where
      "bend_kinematics len field = Inr (r, ba)"
      "pole_faces (x - r * sin \<theta>) (y + r * cos \<theta>) \<theta> r ba rmin rmax
           (rmin - 1.5 * gap) (rmax + 1.5 * gap) ins outs = Inr (bk, fr)"
      "magnet_block (x - r * sin \<theta>) (y + r * cos \<theta>) \<theta> ba
           (rmin - 1.5 * gap) (rmax + 1.5 * gap) bk fr = Inr block"
    by (rule draw_bending_magnet_cases)
  then have bend:
    "\<exists>new. fst (draw_bending_magnet g x y \<theta> len field rmin rmax gap ins outs) = g @ new"
  proof cases
    case fail
    then show ?thesis by simp
  next
    case ok
    show ?thesis by (simp add: draw_bending_magnet_success [OF ok, of g])
  qed
  from plane drift multipole bend show ?thesis by blast
qed

text \<open>
  C10. Every path record a renderer appends has stacking order \<open>1\<close> with the class magnet
  or plane, or stacking order \<open>2\<close> with the class central-ray or guide. For a path list of
  such records, the stable sort by stacking order that write_SVG serializes is the magnet
  and plane records in their order, followed by the central-ray and guide records in
  theirs.
\<close>

theorem stacking_order:
  "list_all stacking_ok (drop (length g) (draw_plane g x y \<theta> left right_arg)) \<and>
   list_all stacking_ok (drop (length g) (fst (draw_drift_length g x y \<theta> len))) \<and>
   list_all stacking_ok (drop (length g) (fst (draw_multipole_magnet g x y \<theta> len radius))) \<and>
   list_all stacking_ok
     (drop (length g)
        (fst (draw_bending_magnet g x y \<theta> len field rmin rmax gap ins outs))) \<and>
   (list_all stacking_ok paths \<longrightarrow>
      sort_key zorder paths = filter body_class paths @ filter overlay_class paths \<and>
      write_SVG paths =
        (case try_map path_text (filter body_class paths @ filter overlay_class paths) of
           Inl err \<Rightarrow> Inl err
         | Inr elements \<Rightarrow> Inr (svg_header @ concat elements @ ''</svg>\<newline>'')))"
proof -
  have plane: "list_all stacking_ok (drop (length g) (draw_plane g x y \<theta> left right_arg))"
    by (simp add: draw_plane_def Let_def stacking_ok_def body_class_def)
  have drift: "list_all stacking_ok (drop (length g) (fst (draw_drift_length g x y \<theta> len)))"
    by (simp add: draw_drift_length_def Let_def stacking_ok_def overlay_class_def)
  have multipole:
    "list_all stacking_ok (drop (length g) (fst (draw_multipole_magnet g x y \<theta> len radius)))"
    by (simp add: draw_multipole_magnet_def Let_def stacking_ok_def body_class_def
        overlay_class_def)
  consider (fail) err where
      "draw_bending_magnet g x y \<theta> len field rmin rmax gap ins outs = (g, Inl err)"
  | (ok) r ba bk fr block where
      "bend_kinematics len field = Inr (r, ba)"
      "pole_faces (x - r * sin \<theta>) (y + r * cos \<theta>) \<theta> r ba rmin rmax
           (rmin - 1.5 * gap) (rmax + 1.5 * gap) ins outs = Inr (bk, fr)"
      "magnet_block (x - r * sin \<theta>) (y + r * cos \<theta>) \<theta> ba
           (rmin - 1.5 * gap) (rmax + 1.5 * gap) bk fr = Inr block"
    by (rule draw_bending_magnet_cases)
  then have bend: "list_all stacking_ok
     (drop (length g)
        (fst (draw_bending_magnet g x y \<theta> len field rmin rmax gap ins outs)))"
  proof cases
    case fail
    then show ?thesis by simp
  next
    case ok
    show ?thesis
      by (simp add: draw_bending_magnet_success [OF ok, of g] stacking_ok_def body_class_def
          overlay_class_def)
  qed
  have sorted: "list_all stacking_ok paths \<longrightarrow>
      sort_key zorder paths = filter body_class paths @ filter overlay_class paths \<and>
      write_SVG paths =
        (case try_map path_text (filter body_class paths @ filter overlay_class paths) of
           Inl err \<Rightarrow> Inl err
         | Inr elements \<Rightarrow> Inr (svg_header @ concat elements @ ''</svg>\<newline>''))"
    by (simp add: write_SVG_def sort_two_levels)
  from plane drift multipole bend sorted show ?thesis by blast
qed

text \<open>
  A drift followed by a multipole magnet appends a central ray, a magnet body and a central
  ray; the sort puts the magnet body first.
\<close>

theorem stacking_order_witness:
  "list_all stacking_ok
     (fst (draw_multipole_magnet (fst (draw_drift_length [] 0 0 0 2)) 2 0 0 3 1)) \<and>
   sort_key zorder (fst (draw_multipole_magnet (fst (draw_drift_length [] 0 0 0 2)) 2 0 0 3 1)) =
     filter body_class
       (fst (draw_multipole_magnet (fst (draw_drift_length [] 0 0 0 2)) 2 0 0 3 1)) @
     filter overlay_class
       (fst (draw_multipole_magnet (fst (draw_drift_length [] 0 0 0 2)) 2 0 0 3 1)) \<and>
   map klass
     (sort_key zorder (fst (draw_multipole_magnet (fst (draw_drift_length [] 0 0 0 2)) 2 0 0 3 1))) =
     [''magnet'', ''central-ray'', ''central-ray'']"
proof -
  let ?paths = "fst (draw_multipole_magnet (fst (draw_drift_length [] 0 0 0 2)) 2 0 0 3 1)"
  have ok: "list_all stacking_ok ?paths"
    by (simp add: draw_multipole_magnet_def draw_drift_length_def Let_def stacking_ok_def
        body_class_def overlay_class_def)
  from stacking_order [where paths = ?paths] ok
  have sorted: "sort_key zorder ?paths = filter body_class ?paths @ filter overlay_class ?paths"
    by blast
  have "map klass (filter body_class ?paths @ filter overlay_class ?paths) =
      [''magnet'', ''central-ray'', ''central-ray'']"
    by (simp add: draw_multipole_magnet_def draw_drift_length_def Let_def body_class_def
        overlay_class_def)
  with ok sorted show ?thesis by simp
qed

end
